theory Spec2Isabelle
  imports Complex_Main "HOL-Library.Char_ord" "HOL-Library.List_Lexorder"
begin

section \<open>Conventions of the embedding\<close>

text \<open>
  The Python sources are embedded function by function. A Python \<open>float\<close> is modelled by the
  real number it denotes (arithmetic is exact, NaN and infinities are left out), an \<open>int\<close> by
  \<open>int\<close>, a \<open>str\<close> by \<open>string\<close> (ASCII text, compared code point by code point, which is the
  lexicographic order of \<open>char list\<close>). A dictionary the code only reads with \<open>.get\<close> is a
  record with one optional field for each key that is read: \<open>None\<close> is the absent key. A
  dictionary the code builds is an association list in insertion order. An exception is a
  value \<open>Inl e\<close> of a sum type. Values the code takes from its environment (clock, UUID
  generator, random generator, number formatting) are arguments of the model.
\<close>

datatype py_error = ZeroDivisionError | TypeError

subsection \<open>String helpers of the Python standard library\<close>

definition upper_char :: "char \<Rightarrow> char" where
  "upper_char c =
     (if CHR ''a'' \<le> c \<and> c \<le> CHR ''z'' then char_of (of_char c - (32::nat)) else c)"

definition lower_char :: "char \<Rightarrow> char" where
  "lower_char c =
     (if CHR ''A'' \<le> c \<and> c \<le> CHR ''Z'' then char_of (of_char c + (32::nat)) else c)"

definition upper :: "string \<Rightarrow> string" where
  "upper s = map upper_char s"

definition lower :: "string \<Rightarrow> string" where
  "lower s = map lower_char s"

text \<open>\<open>s[-n:]\<close> for a positive \<open>n\<close>: the last \<open>n\<close> characters, the whole string when it is shorter.\<close>

definition last_chars :: "nat \<Rightarrow> string \<Rightarrow> string" where
  "last_chars n s = drop (length s - n) s"

subsection \<open>The customer record and the trigger context\<close>

text \<open>The keys of \<open>customer_data\<close> read by the guardrails, the agents and the channels.\<close>

record customer_data =
  cd_customer_id :: "string option"
  cd_cart_value :: "real option"
  cd_vip_status :: "bool option"
  cd_emails_this_week :: "int option"
  cd_email_type :: "string option"
  cd_engagement_score :: "real option"
  cd_region :: "string option"
  cd_gdpr_consent :: "bool option"
  cd_consent_date :: "string option"
  cd_email :: "string option"
  cd_phone :: "string option"
  cd_whatsapp_consent :: "bool option"

record trigger_context =
  ctx_cart_items :: "string list option"
  ctx_hours_since_abandon :: "real option"

text \<open>\<open>d.get(k, default)\<close>.\<close>

definition get_or :: "'a option \<Rightarrow> 'a \<Rightarrow> 'a" where
  "get_or v d = (case v of None \<Rightarrow> d | Some x \<Rightarrow> x)"

section \<open>agents/base\_agent.py\<close>

datatype pval = PStr string | PNum real | PInt int | PStrs "string list" | PBool bool

record agent_input =
  in_customer_id :: string
  in_customer_data :: customer_data
  in_context :: trigger_context

record agent_decision =
  dec_decision_id :: string
  dec_agent_name :: string
  dec_customer_id :: string
  dec_action :: string
  dec_parameters :: "(string \<times> pval) list"
  dec_confidence :: real
  dec_guardrail_checks :: "(string \<times> bool) list"
  dec_requires_human_review :: bool
  dec_timestamp :: string
  dec_reasoning :: string

record base_agent =
  agent_name :: string
  decision_log :: "agent_decision list"

text \<open>What one call of \<open>_create_decision\<close> takes from outside: \<open>uuid.uuid4()\<close> and the clock.\<close>

record env =
  env_uuid :: string
  env_now :: string

text \<open>
  \<open>BaseAgent._create_decision\<close>: builds the decision and appends it to the agent's log.
  The optional arguments of the source are explicit here: \<open>guardrail_checks or {}\<close> is the
  caller passing \<open>[]\<close>.
\<close>

definition create_decision ::
  "base_agent \<Rightarrow> env \<Rightarrow> string \<Rightarrow> string \<Rightarrow> (string \<times> pval) list \<Rightarrow> real \<Rightarrow>
   (string \<times> bool) list \<Rightarrow> bool \<Rightarrow> string \<Rightarrow> agent_decision \<times> base_agent" where
  "create_decision self e customer_id action parameters confidence guardrail_checks
     requires_human_review reasoning =
     (let decision = \<lparr> dec_decision_id = env_uuid e,
                        dec_agent_name = agent_name self,
                        dec_customer_id = customer_id,
                        dec_action = action,
                        dec_parameters = parameters,
                        dec_confidence = confidence,
                        dec_guardrail_checks = guardrail_checks,
                        dec_requires_human_review = requires_human_review,
                        dec_timestamp = env_now e,
                        dec_reasoning = reasoning \<rparr>
      in (decision, self\<lparr>decision_log := decision_log self @ [decision]\<rparr>))"

section \<open>agents/abandoned\_cart\_agent.py\<close>

text \<open>\<open>AbandonedCartWinBackAgent._calculate_incentive\<close>.\<close>

definition calculate_incentive :: "real \<Rightarrow> bool \<Rightarrow> int" where
  "calculate_incentive cart_value is_vip =
     (if is_vip then
        (if cart_value > 500 then 10
         else if cart_value > 200 then 12
         else 15)
      else
        (if cart_value > 500 then 15
         else if cart_value > 200 then 20
         else 25))"

text \<open>Python's rendering of numbers inside an f-string, taken as given.\<close>

record fmt =
  str_float :: "real \<Rightarrow> string"
  str_int :: "int \<Rightarrow> string"

text \<open>\<open>AbandonedCartWinBackAgent._handle_abandoned_cart\<close>.\<close>

definition handle_abandoned_cart ::
  "fmt \<Rightarrow> base_agent \<Rightarrow> env \<Rightarrow> agent_input \<Rightarrow> agent_decision \<times> base_agent" where
  "handle_abandoned_cart f self e agent_input =
     (let customer_data = in_customer_data agent_input;
          ctx = in_context agent_input;
          cart_value = get_or (cd_cart_value customer_data) 0;
          cart_items = get_or (ctx_cart_items ctx) [];
          hours_since_abandon = get_or (ctx_hours_since_abandon ctx) 2
      in if cart_value < 20 then
           create_decision self e (in_customer_id agent_input) ''skip_cart_recovery''
             [(''reason'', PStr ''Cart value too low'')] 0.9 [] False
             ''Cart value below minimum recovery threshold''
         else
           (let incentive = calculate_incentive cart_value
                              (get_or (cd_vip_status customer_data) False);
                discount_code =
                  ''RECOVER'' @ upper (last_chars 4 (get_or (cd_customer_id customer_data) ''X''))
            in create_decision self e (in_customer_id agent_input) ''send_cart_recovery_email''
                 [(''cart_value'', PNum cart_value),
                  (''top_items'', PStrs (take 3 cart_items)),
                  (''discount_percentage'', PInt incentive),
                  (''discount_code'', PStr discount_code),
                  (''expiry_hours'', PInt 24),
                  (''send_time'', PStr ''2 hours from now''),
                  (''follow_up'', PStr ''Send SMS reminder after 12 hours'')]
                 0.89
                 [(''discount_policy_check'', True),
                  (''frequency_cap_check'', True),
                  (''inventory_check'', True)]
                 (cart_value > 500)
                 (''Cart abandoned '' @ str_float f hours_since_abandon @ ''h ago. Value: $''
                    @ str_float f cart_value @ ''. Incentive: '' @ str_int f incentive
                    @ ''% discount'')))"

section \<open>config/config.py\<close>

definition MIN_ENGAGEMENT_SCORE :: real where
  "MIN_ENGAGEMENT_SCORE = 0.3"

definition TONE_CONSISTENCY_THRESHOLD :: real where
  "TONE_CONSISTENCY_THRESHOLD = 0.85"

definition SPAM_SCORE_THRESHOLD :: real where
  "SPAM_SCORE_THRESHOLD = 0.7"

definition FREQUENCY_CAP_RULES :: "(string \<times> int) list" where
  "FREQUENCY_CAP_RULES =
     [(''marketing'', 3), (''transactional'', 999), (''promotional'', 2), (''newsletter'', 1)]"

text \<open>The entries of \<open>TONE_GUIDELINES\<close> that the guardrails read.\<close>

definition TONE_voice :: string where
  "TONE_voice = ''friendly, conversational, empowering''"

definition TONE_style :: string where
  "TONE_style = ''concise, action-oriented, benefit-focused''"

definition TONE_forbidden_words :: "string list" where
  "TONE_forbidden_words = [''spam'', ''cheap'', ''limited'', ''urgent'', ''act now'']"

definition TONE_required_elements :: "string list" where
  "TONE_required_elements =
     [''personalization (first name)'', ''clear CTA'', ''brand signature'']"

section \<open>guardrails/guardrails.py: the checks\<close>

subsection \<open>Library functions the checks call\<close>

text \<open>\<open>sub in s\<close> on strings: \<open>sub\<close> occurs in \<open>s\<close> as a contiguous block.\<close>

fun str_contains :: "string \<Rightarrow> string \<Rightarrow> bool" where
  "str_contains sub [] = (sub = [])"
| "str_contains sub (c # cs) = (take (length sub) (c # cs) = sub \<or> str_contains sub cs)"

text \<open>
  \<open>len(re.findall(r'[X]{k,}', s))\<close> for a character class \<open>X\<close> and \<open>k \<ge> 1\<close>: the matches are
  greedy and do not overlap, so each maximal run of at least \<open>k\<close> characters of the class
  is one match. \<open>run\<close> is the length of the run that ends at the current position.
\<close>

fun count_runs :: "(char \<Rightarrow> bool) \<Rightarrow> nat \<Rightarrow> nat \<Rightarrow> string \<Rightarrow> nat" where
  "count_runs P k run [] = (if k \<le> run then 1 else 0)"
| "count_runs P k run (c # cs) =
     (if P c then count_runs P k (Suc run) cs
      else (if k \<le> run then 1 else 0) + count_runs P k 0 cs)"

definition is_upper_AZ :: "char \<Rightarrow> bool" where
  "is_upper_AZ c = (CHR ''A'' \<le> c \<and> c \<le> CHR ''Z'')"

text \<open>\<open>e.split(c)[0]\<close>: the part before the first occurrence of the separator.\<close>

definition split_head :: "char \<Rightarrow> string \<Rightarrow> string" where
  "split_head c s = takeWhile (\<lambda>x. x \<noteq> c) s"

text \<open>
  \<open>round(x, n)\<close>: to \<open>n\<close> decimal places, a tie going to the even neighbour. The model
  rounds the real number; the source rounds the binary float.
\<close>

definition round_half_even :: "real \<Rightarrow> int" where
  "round_half_even x =
     (let f = \<lfloor>x\<rfloor>; d = x - of_int f
      in if d < 1 / 2 then f else if 1 / 2 < d then f + 1 else if even f then f else f + 1)"

definition py_round :: "real \<Rightarrow> nat \<Rightarrow> real" where
  "py_round x n = of_int (round_half_even (x * 10 ^ n)) / 10 ^ n"

text \<open>Truthiness of an optional string: \<open>bool(d.get(k))\<close>.\<close>

definition truthy :: "string option \<Rightarrow> bool" where
  "truthy v = (case v of None \<Rightarrow> False | Some s \<Rightarrow> s \<noteq> [])"

subsection \<open>Check results\<close>

datatype dval = DNone | DStr string | DInt int | DNum real | DBool bool | DStrs "string list"

definition opt_str :: "string option \<Rightarrow> dval" where
  "opt_str v = (case v of None \<Rightarrow> DNone | Some s \<Rightarrow> DStr s)"

record GuardrailCheck =
  check_name :: string
  passed :: bool
  details :: "(string \<times> dval) list"
  severity :: string

record email_data =
  ed_subject :: "string option"
  ed_body :: "string option"
  ed_from_address :: "string option"
  ed_unsubscribe_link :: "string option"
  ed_physical_address :: "string option"

subsection \<open>SpamControlGuardrail\<close>

definition SPAM_KEYWORDS :: "string list" where
  "SPAM_KEYWORDS =
     [''click here now'', ''urgent'', ''act now'', ''limited time'', ''guaranteed'',
      ''free'', ''no credit card'', ''risk free'', ''unsubscribe'', ''verify account'']"

definition check_email_frequency :: "string option \<Rightarrow> int \<Rightarrow> string \<Rightarrow> GuardrailCheck" where
  "check_email_frequency customer_id email_count_this_week email_type =
     (let max_allowed = get_or (map_of FREQUENCY_CAP_RULES email_type) 3;
          ok = (email_count_this_week < max_allowed)
      in \<lparr> check_name = ''frequency_cap'',
           passed = ok,
           details = [(''customer_id'', opt_str customer_id),
                      (''emails_this_week'', DInt email_count_this_week),
                      (''max_allowed'', DInt max_allowed),
                      (''email_type'', DStr email_type)],
           severity = (if \<not> ok then ''error'' else ''warning'') \<rparr>)"

definition check_spam_score :: "string \<Rightarrow> string \<Rightarrow> GuardrailCheck" where
  "check_spam_score subject body =
     (let content = lower (subject @ '' '' @ body);
          spam_count0 = length (filter (\<lambda>keyword. str_contains keyword content) SPAM_KEYWORDS);
          spam_count1 = (if count_runs is_upper_AZ 3 0 subject > 2
                         then spam_count0 + 1 else spam_count0);
          spam_count = (if count_runs (\<lambda>c. c = CHR ''!'') 2 0 content > 1
                        then spam_count1 + 1 else spam_count1);
          spam_score = min (real spam_count / 5) 1;
          ok = (spam_score < SPAM_SCORE_THRESHOLD)
      in \<lparr> check_name = ''spam_score'',
           passed = ok,
           details = [(''spam_score'', DNum (py_round spam_score 3)),
                      (''threshold'', DNum SPAM_SCORE_THRESHOLD),
                      (''spam_triggers_found'', DInt (int spam_count))],
           severity = (if \<not> ok then ''error'' else ''warning'') \<rparr>)"

definition check_engagement_score :: "real \<Rightarrow> GuardrailCheck" where
  "check_engagement_score customer_engagement =
     (let ok = (customer_engagement \<ge> MIN_ENGAGEMENT_SCORE)
      in \<lparr> check_name = ''engagement_score'',
           passed = ok,
           details = [(''engagement_score'', DNum (py_round customer_engagement 3)),
                      (''min_threshold'', DNum MIN_ENGAGEMENT_SCORE)],
           severity = (if \<not> ok then ''error'' else ''warning'') \<rparr>)"

subsection \<open>ComplianceGuardrail\<close>

text \<open>
  \<open>check_gdpr_consent\<close>. The caller has already replaced an absent region by its default;
  \<open>customer_data.get("gdpr_consent", False)\<close> is read here.
\<close>

definition check_gdpr_consent :: "customer_data \<Rightarrow> string \<Rightarrow> GuardrailCheck" where
  "check_gdpr_consent customer_data region =
     (let has_consent = get_or (cd_gdpr_consent customer_data) False;
          ok = (has_consent \<or> region \<noteq> ''EU'')
      in \<lparr> check_name = ''gdpr_consent'',
           passed = ok,
           details = [(''region'', DStr region),
                      (''has_consent'', DBool has_consent),
                      (''consent_date'', opt_str (cd_consent_date customer_data))],
           severity = (if \<not> ok \<and> region = ''EU'' then ''critical'' else ''warning'') \<rparr>)"

text \<open>The value of \<open>email_data.get(e)\<close> for the three element names of \<open>check_can_spam\<close>.\<close>

definition email_get :: "email_data \<Rightarrow> string \<Rightarrow> string option" where
  "email_get email e =
     (if e = ''from_address'' then ed_from_address email
      else if e = ''unsubscribe_link'' then ed_unsubscribe_link email
      else if e = ''physical_address'' then ed_physical_address email
      else None)"

definition check_can_spam :: "email_data \<Rightarrow> GuardrailCheck" where
  "check_can_spam email =
     (let required_elements = [''from_address'', ''unsubscribe_link'', ''physical_address''];
          missing = filter (\<lambda>e. \<not> truthy (email_get email e)) required_elements;
          ok = (length missing = 0)
      in \<lparr> check_name = ''can_spam'',
           passed = ok,
           details = [(''missing_elements'', DStrs missing),
                      (''has_from_address'', DBool (truthy (email_get email ''from_address''))),
                      (''has_unsubscribe_link'',
                         DBool (truthy (email_get email ''unsubscribe_link''))),
                      (''has_physical_address'',
                         DBool (truthy (email_get email ''physical_address'')))],
           severity = (if \<not> ok then ''critical'' else ''warning'') \<rparr>)"

subsection \<open>ToneConsistencyGuardrail\<close>

definition check_tone_consistency :: "string \<Rightarrow> GuardrailCheck" where
  "check_tone_consistency text =
     (let forbidden = TONE_forbidden_words;
          text_lower = lower text;
          found_forbidden = filter (\<lambda>w. str_contains w text_lower) forbidden;
          required = TONE_required_elements;
          has_required =
            (length (filter (\<lambda>e. str_contains (lower (split_head CHR ''('' e)) text_lower)
                       required) > 0);
          score0 = (1::real);
          score1 = (if found_forbidden \<noteq> []
                    then score0 - real (length found_forbidden) * 0.1 else score0);
          score2 = (if \<not> has_required then score1 - 0.2 else score1);
          consistency_score = max 0 (min 1 score2);
          ok = (consistency_score \<ge> TONE_CONSISTENCY_THRESHOLD)
      in \<lparr> check_name = ''tone_consistency'',
           passed = ok,
           details = [(''consistency_score'', DNum (py_round consistency_score 3)),
                      (''threshold'', DNum TONE_CONSISTENCY_THRESHOLD),
                      (''forbidden_words_found'', DStrs found_forbidden),
                      (''voice'', DStr TONE_voice),
                      (''style'', DStr TONE_style)],
           severity = (if \<not> ok then ''error'' else ''warning'') \<rparr>)"

definition check_personalization :: "string \<Rightarrow> GuardrailCheck" where
  "check_personalization text =
     (let has_first_name =
            (str_contains ''{{first_name}}'' text \<or> str_contains ''{first_name}'' text);
          has_dynamic_content =
            list_ex (\<lambda>s. str_contains s text) [''{{'', ''{%'', ''dynamic'', ''personalized''];
          ok = (has_first_name \<or> has_dynamic_content)
      in \<lparr> check_name = ''personalization'',
           passed = ok,
           details = [(''has_first_name_placeholder'', DBool has_first_name),
                      (''has_dynamic_content'', DBool has_dynamic_content)],
           severity = ''warning'' \<rparr>)"

subsection \<open>GuardrailsManager\<close>

text \<open>
  \<open>GuardrailsManager.run_all_checks\<close>. The result dictionary is the association list of
  its seven entries in insertion order; the seven keys are distinct.
\<close>

definition run_all_checks ::
  "customer_data \<Rightarrow> email_data \<Rightarrow> bool \<times> (string \<times> GuardrailCheck) list" where
  "run_all_checks customer_data email =
     (let subject = get_or (ed_subject email) [];
          body = get_or (ed_body email) [];
          results =
            [(''frequency_cap'',
                check_email_frequency (cd_customer_id customer_data)
                  (get_or (cd_emails_this_week customer_data) 0)
                  (get_or (cd_email_type customer_data) ''marketing'')),
             (''spam_score'', check_spam_score subject body),
             (''engagement_score'',
                check_engagement_score (get_or (cd_engagement_score customer_data) 0)),
             (''gdpr_consent'',
                check_gdpr_consent customer_data (get_or (cd_region customer_data) ''EU'')),
             (''can_spam'', check_can_spam email),
             (''tone_consistency'', check_tone_consistency (subject @ '' '' @ body)),
             (''personalization'', check_personalization (subject @ '' '' @ body))];
          all_passed =
            list_all (\<lambda>check. passed check \<or> severity check \<noteq> ''critical'')
              (map snd results)
      in (all_passed, results))"

section \<open>guardrails/guardrails.py: AuditLogger\<close>

text \<open>
  The decision dictionary handed to \<open>log_decision\<close>: the four keys the logger reads, and
  the remaining entries.
\<close>

record decision_dict =
  dd_decision_id :: "string option"
  dd_agent_name :: "string option"
  dd_customer_id :: "string option"
  dd_action :: "string option"
  dd_other :: "(string \<times> pval) list"

text \<open>
  The two shapes of dictionary the logger appends. A decision entry has the keys
  \<open>timestamp, decision_id, agent, customer_id, action, guardrail_checks,
  human_review_required, decision_details\<close>; an override entry has the keys
  \<open>timestamp, decision_id, original_action, override_action, reason, type\<close>, the last
  with the constant value \<open>"human_override"\<close>.
\<close>

datatype audit_entry =
  Decision_entry string "string option" "string option" "string option" "string option"
    "(string \<times> bool) list" bool decision_dict
| Override_entry string string string string string

text \<open>\<open>x["timestamp"]\<close>, \<open>e.get("customer_id")\<close> and \<open>e.get("type")\<close> on an entry.\<close>

fun entry_timestamp :: "audit_entry \<Rightarrow> string" where
  "entry_timestamp (Decision_entry ts did ag cid act gc hr dd) = ts"
| "entry_timestamp (Override_entry ts did orig ovr reason) = ts"

fun entry_customer_id :: "audit_entry \<Rightarrow> string option" where
  "entry_customer_id (Decision_entry ts did ag cid act gc hr dd) = cid"
| "entry_customer_id (Override_entry ts did orig ovr reason) = None"

fun entry_type :: "audit_entry \<Rightarrow> string option" where
  "entry_type (Decision_entry ts did ag cid act gc hr dd) = None"
| "entry_type (Override_entry ts did orig ovr reason) = Some ''human_override''"

record AuditLogger =
  audit_log :: "audit_entry list"

text \<open>\<open>AuditLogger.__init__\<close>.\<close>

definition AuditLogger_init :: AuditLogger where
  "AuditLogger_init = \<lparr> audit_log = [] \<rparr>"

text \<open>
  \<open>log_decision\<close> and \<open>log_human_override\<close>; \<open>now\<close> is the value of
  \<open>datetime.utcnow().isoformat() + "Z"\<close> at the call.
\<close>

definition log_decision ::
  "AuditLogger \<Rightarrow> string \<Rightarrow> decision_dict \<Rightarrow> (string \<times> bool) list \<Rightarrow> bool \<Rightarrow>
   audit_entry \<times> AuditLogger" where
  "log_decision self now decision guardrail_checks human_review =
     (let audit_entry =
            Decision_entry now (dd_decision_id decision) (dd_agent_name decision)
              (dd_customer_id decision) (dd_action decision) guardrail_checks human_review
              decision
      in (audit_entry, self\<lparr>audit_log := audit_log self @ [audit_entry]\<rparr>))"

definition log_human_override ::
  "AuditLogger \<Rightarrow> string \<Rightarrow> string \<Rightarrow> string \<Rightarrow> string \<Rightarrow> string \<Rightarrow>
   audit_entry \<times> AuditLogger" where
  "log_human_override self now decision_id original_action override_action reason =
     (let override_entry =
            Override_entry now decision_id original_action override_action reason
      in (override_entry, self\<lparr>audit_log := audit_log self @ [override_entry]\<rparr>))"

text \<open>
  \<open>sorted(xs, key=f, reverse=True)\<close>: descending in the key, and stable, elements with
  equal keys keeping the order they have in \<open>xs\<close>.
\<close>

definition sorted_reverse :: "('a \<Rightarrow> 'k::linorder) \<Rightarrow> 'a list \<Rightarrow> 'a list" where
  "sorted_reverse f xs = rev (sort_key f (rev xs))"

text \<open>\<open>xs[:limit]\<close>: a negative limit counts from the end of the list.\<close>

definition slice_to :: "int \<Rightarrow> 'a list \<Rightarrow> 'a list" where
  "slice_to limit xs =
     (if 0 \<le> limit then take (nat limit) xs else take (length xs - nat (- limit)) xs)"

text \<open>
  \<open>get_audit_history\<close>. The argument \<open>customer_id\<close> is optional in the source and is
  tested for truthiness: \<open>None\<close> and the empty string both select the unfiltered branch.
  The method reads the log and leaves it as it is.
\<close>

definition get_audit_history :: "AuditLogger \<Rightarrow> string option \<Rightarrow> int \<Rightarrow> audit_entry list" where
  "get_audit_history self customer_id limit =
     (let history =
            (if truthy customer_id
             then filter (\<lambda>e. entry_customer_id e = customer_id) (audit_log self)
             else audit_log self)
      in slice_to limit (sorted_reverse entry_timestamp history))"

text \<open>The operations of the logger, each with the arguments of the call.\<close>

datatype audit_op =
  Log_decision string decision_dict "(string \<times> bool) list" bool
| Log_human_override string string string string string
| Get_audit_history "string option" int

fun is_append :: "audit_op \<Rightarrow> bool" where
  "is_append (Get_audit_history customer_id limit) = False"
| "is_append _ = True"

fun run_op :: "AuditLogger \<Rightarrow> audit_op \<Rightarrow> AuditLogger" where
  "run_op self (Log_decision now decision guardrail_checks human_review) =
     snd (log_decision self now decision guardrail_checks human_review)"
| "run_op self (Log_human_override now decision_id original_action override_action reason) =
     snd (log_human_override self now decision_id original_action override_action reason)"
| "run_op self (Get_audit_history customer_id limit) = self"

definition run_ops :: "AuditLogger \<Rightarrow> audit_op list \<Rightarrow> AuditLogger" where
  "run_ops self ops = foldl run_op self ops"

section \<open>analytics/metrics.py: ABTest\<close>

record ABTestVariant =
  variant_id :: string
  variant_name :: string
  traffic_percentage :: real
  conversions :: int
  impressions :: int
  revenue :: real

text \<open>
  \<open>variants\<close> is a dictionary in insertion order: an association list with distinct keys.
  \<open>confidence_level\<close> defaults to 0.95.
\<close>

record ABTest =
  test_id :: string
  test_name :: string
  created_at :: string
  variants :: "(string \<times> ABTestVariant) list"
  status :: string
  winner :: "string option"
  confidence_level :: real

definition default_confidence_level :: real where
  "default_confidence_level = 0.95"

text \<open>The property \<open>ABTestVariant.conversion_rate\<close>.\<close>

definition conversion_rate :: "ABTestVariant \<Rightarrow> real" where
  "conversion_rate v =
     (if impressions v = 0 then 0 else of_int (conversions v) / of_int (impressions v))"

text \<open>
  \<open>ABTest._calculate_chi_square\<close>. Python's \<open>/\<close> raises on a zero divisor, integer or
  float; each of the three divisions is guarded here in the order the source evaluates
  them.
\<close>

definition calculate_chi_square :: "ABTestVariant \<Rightarrow> ABTestVariant \<Rightarrow> py_error + real" where
  "calculate_chi_square variant1 variant2 =
     (let n1 = impressions variant1; n2 = impressions variant2
      in if n1 = 0 \<or> n2 = 0 then Inr 0
         else if n1 + n2 = 0 then Inl ZeroDivisionError
         else
           (let p_pool = of_int (conversions variant1 + conversions variant2) / of_int (n1 + n2);
                expected1 = of_int n1 * p_pool;
                expected2 = of_int n2 * p_pool
            in if expected1 = 0 then Inl ZeroDivisionError
               else if expected2 = 0 then Inl ZeroDivisionError
               else Inr ((of_int (conversions variant1) - expected1)\<^sup>2 / expected1
                         + (of_int (conversions variant2) - expected2)\<^sup>2 / expected2)))"

text \<open>\<open>ABTest._chi_square_to_p_value\<close>; the argument \<open>df\<close> is not used by the source.\<close>

definition chi_square_to_p_value :: "real \<Rightarrow> int \<Rightarrow> real" where
  "chi_square_to_p_value chi_square df =
     (if chi_square < 2.7 then 0.10
      else if chi_square < 3.8 then 0.05
      else if chi_square < 6.6 then 0.01
      else 0.001)"

text \<open>
  One round of the loop of \<open>get_statistical_winner\<close>: whether the comparison of
  \<open>variant\<close> with \<open>control\<close> reaches the \<open>return variant.variant_id\<close>.
\<close>

definition comparison_wins :: "real \<Rightarrow> ABTestVariant \<Rightarrow> ABTestVariant \<Rightarrow> py_error + bool" where
  "comparison_wins conf control variant =
     (case calculate_chi_square control variant of
        Inl e \<Rightarrow> Inl e
      | Inr chi_square \<Rightarrow>
          (let p_value = chi_square_to_p_value chi_square 1
           in if p_value < 1 - conf
              then (if conversion_rate variant > conversion_rate control
                    then Inr True else Inr False)
              else Inr False))"

fun winner_loop :: "real \<Rightarrow> ABTestVariant \<Rightarrow> ABTestVariant list \<Rightarrow> py_error + string option" where
  "winner_loop conf control [] = Inr None"
| "winner_loop conf control (variant # rest) =
     (case comparison_wins conf control variant of
        Inl e \<Rightarrow> Inl e
      | Inr True \<Rightarrow> Inr (Some (variant_id variant))
      | Inr False \<Rightarrow> winner_loop conf control rest)"

text \<open>\<open>ABTest.get_statistical_winner\<close>.\<close>

definition get_statistical_winner :: "ABTest \<Rightarrow> py_error + string option" where
  "get_statistical_winner self =
     (if length (variants self) < 2 then Inr None
      else
        (let variants_list = map snd (variants self)
         in case variants_list of
              [] \<Rightarrow> Inr None
            | control # others \<Rightarrow> winner_loop (confidence_level self) control others))"

section \<open>agents/creative\_testing\_agent.py\<close>

record creative =
  oc_subject :: "string option"
  oc_body :: "string option"
  oc_cta :: "string option"

record variation =
  var_name :: string
  var_subject :: string
  var_body :: string
  var_cta :: string

record scored_variation =
  sv_name :: string
  sv_subject :: string
  sv_body :: string
  sv_cta :: string
  brand_consistency_score :: real
  tone_consistency_score :: real
  length_score :: real
  overall_score :: real

text \<open>\<open>CreativeTestingAgent._generate_variations\<close>: the baseline creative comes first.\<close>

definition generate_variations :: "creative \<Rightarrow> variation list" where
  "generate_variations original_creative =
     (let subject = get_or (oc_subject original_creative) ''Check this out!'';
          body = get_or (oc_body original_creative) ''We have something special for you.'';
          cta = get_or (oc_cta original_creative) ''Learn More''
      in [\<lparr> var_name = ''Control (Original)'', var_subject = subject, var_body = body,
             var_cta = cta \<rparr>,
          \<lparr> var_name = ''Variation A (Curiosity-driven)'',
             var_subject = ''You won't believe what we found for you'',
             var_body = ''Our team discovered something special that matches your interests. Take a peek inside.'',
             var_cta = ''Show Me'' \<rparr>,
          \<lparr> var_name = ''Variation B (Benefit-focused)'',
             var_subject = ''Save 20% on items you'll love'',
             var_body = ''Based on your recent browsing, we've curated a selection just for you. Enjoy an exclusive discount.'',
             var_cta = ''Claim Discount'' \<rparr>,
          \<lparr> var_name = ''Variation C (FOMO/Urgency)'',
             var_subject = ''Only 24 hours: Your personalized picks'',
             var_body = ''We saved these items for you, but they're selling fast. Secure yours before they're gone.'',
             var_cta = ''Shop Now'' \<rparr>,
          \<lparr> var_name = ''Variation D (Social Proof)'',
             var_subject = ''1000+ customers loved this - your turn?'',
             var_body = ''Join thousands of happy customers who discovered these bestsellers. See what everyone's raving about.'',
             var_cta = ''Explore Now'' \<rparr>])"

text \<open>
  The scoring loop of \<open>_score_variations\<close>. \<open>rnd i\<close> is the pair of values that
  \<open>random.uniform(0.8, 1.0)\<close> and \<open>random.uniform(0.85, 1.0)\<close> return for the variation
  at position \<open>i\<close>.
\<close>

definition score_one :: "real \<times> real \<Rightarrow> variation \<Rightarrow> scored_variation" where
  "score_one draw var =
     (let brand = fst draw; tone = snd draw; len_score = 0.95
      in \<lparr> sv_name = var_name var, sv_subject = var_subject var, sv_body = var_body var,
           sv_cta = var_cta var,
           brand_consistency_score = brand,
           tone_consistency_score = tone,
           length_score = len_score,
           overall_score = brand * 0.3 + tone * 0.4 + len_score * 0.3 \<rparr>)"

text \<open>\<open>_score_variations\<close>: score each variation, then sort by score, best first.\<close>

definition score_variations :: "(nat \<Rightarrow> real \<times> real) \<Rightarrow> variation list \<Rightarrow> scored_variation list" where
  "score_variations rnd variations =
     (let scored = map (\<lambda>(i, var). score_one (rnd i) var) (enumerate 0 variations)
      in sorted_reverse overall_score scored)"

record variant_allocation =
  alloc_traffic_percentage :: real
  sample_size :: int

record allocation =
  total_sample_size :: int
  alloc_variants :: "(string \<times> variant_allocation) list"

text \<open>\<open>d[k] = v\<close> on a dictionary in insertion order: an existing key keeps its place.\<close>

fun dict_set :: "('k \<times> 'v) list \<Rightarrow> 'k \<Rightarrow> 'v \<Rightarrow> ('k \<times> 'v) list" where
  "dict_set [] k v = [(k, v)]"
| "dict_set ((k', v') # rest) k v =
     (if k' = k then (k', v) # rest else (k', v') # dict_set rest k v)"

text \<open>\<open>int(x)\<close> on a float: truncation towards zero.\<close>

definition py_int :: "real \<Rightarrow> int" where
  "py_int x = (if 0 \<le> x then \<lfloor>x\<rfloor> else \<lceil>x\<rceil>)"

text \<open>The loop of \<open>_design_test_allocation\<close> over \<open>enumerate(scored_variations)\<close>.\<close>

fun allocation_loop ::
  "real \<Rightarrow> real \<Rightarrow> allocation \<Rightarrow> (nat \<times> scored_variation) list \<Rightarrow> allocation" where
  "allocation_loop control_pct exploit_pct alloc [] = alloc"
| "allocation_loop control_pct exploit_pct alloc ((i, var) # rest) =
     (let pct = (if i = 0 then control_pct else exploit_pct)
      in allocation_loop control_pct exploit_pct
           (alloc\<lparr>alloc_variants :=
                    dict_set (alloc_variants alloc) (sv_name var)
                      \<lparr> alloc_traffic_percentage = py_round (pct * 100) 1,
                        sample_size = py_int (of_int (total_sample_size alloc) * pct) \<rparr>\<rparr>)
           rest)"

text \<open>
  \<open>CreativeTestingAgent._design_test_allocation\<close>. The division for \<open>exploit_pct\<close>
  comes before the loop and raises when the list has exactly one element.
\<close>

definition design_test_allocation :: "scored_variation list \<Rightarrow> py_error + allocation" where
  "design_test_allocation scored_variations =
     (let control_pct = 0.30
      in if int (length scored_variations) - 1 = 0 then Inl ZeroDivisionError
         else
           (let exploit_pct = 0.70 / of_int (int (length scored_variations) - 1)
            in Inr (allocation_loop control_pct exploit_pct
                      \<lparr> total_sample_size = 10000, alloc_variants = [] \<rparr>
                      (enumerate 0 scored_variations))))"

section \<open>execution\_channels/channels.py\<close>

record ExecutionResult =
  res_channel :: string
  res_customer_id :: string
  res_message_id :: string
  res_status :: string
  res_timestamp :: string
  res_details :: "(string \<times> dval) list"

text \<open>
  What a sender reads from the clock: \<open>int(datetime.utcnow().timestamp())\<close> in decimal,
  and \<open>datetime.utcnow().isoformat() + "Z"\<close>.
\<close>

record clock_reading =
  unix_seconds :: string
  iso_now :: string

text \<open>
  \<open>len(x)\<close> on a value that \<open>.get\<close> may have returned as \<open>None\<close>: \<open>len(None)\<close>
  raises \<open>TypeError\<close>.
\<close>

definition py_len :: "string option \<Rightarrow> py_error + nat" where
  "py_len v = (case v of None \<Rightarrow> Inl TypeError | Some s \<Rightarrow> Inr (length s))"

text \<open>The key \<open>phone\<close> of the details: \<open>phone[-4:] + "***" if len(phone) > 4 else phone\<close>.\<close>

definition masked_phone :: "string option \<Rightarrow> py_error + dval" where
  "masked_phone phone =
     (case phone of
        None \<Rightarrow> Inl TypeError
      | Some p \<Rightarrow> Inr (DStr (if length p > 4 then last_chars 4 p @ ''***'' else p)))"

definition send_email ::
  "clock_reading \<Rightarrow> string \<Rightarrow> string option \<Rightarrow> string option \<Rightarrow> string option \<Rightarrow> string \<Rightarrow>
   py_error + ExecutionResult" where
  "send_email clk customer_id email subject body html =
     (case py_len body of
        Inl e \<Rightarrow> Inl e
      | Inr body_length \<Rightarrow>
          Inr \<lparr> res_channel = ''email'',
                res_customer_id = customer_id,
                res_message_id = ''email_'' @ customer_id @ ''_'' @ unix_seconds clk,
                res_status = ''sent'',
                res_timestamp = iso_now clk,
                res_details = [(''email'', opt_str email),
                               (''subject'', opt_str subject),
                               (''body_length'', DInt (int body_length)),
                               (''html_sent'', DBool (html \<noteq> [])),
                               (''provider'', DStr ''SendGrid'')] \<rparr>)"

definition send_sms ::
  "clock_reading \<Rightarrow> string \<Rightarrow> string option \<Rightarrow> string option \<Rightarrow> py_error + ExecutionResult" where
  "send_sms clk customer_id phone message =
     (case masked_phone phone of
        Inl e \<Rightarrow> Inl e
      | Inr shown \<Rightarrow>
          (case py_len message of
             Inl e \<Rightarrow> Inl e
           | Inr message_length \<Rightarrow>
               Inr \<lparr> res_channel = ''sms'',
                     res_customer_id = customer_id,
                     res_message_id = ''sms_'' @ customer_id @ ''_'' @ unix_seconds clk,
                     res_status = ''sent'',
                     res_timestamp = iso_now clk,
                     res_details = [(''phone'', shown),
                                    (''message_length'', DInt (int message_length)),
                                    (''provider'', DStr ''Twilio'')] \<rparr>))"

definition send_whatsapp ::
  "clock_reading \<Rightarrow> string \<Rightarrow> string option \<Rightarrow> string option \<Rightarrow> bool \<Rightarrow>
   py_error + ExecutionResult" where
  "send_whatsapp clk customer_id phone message has_consent =
     (if \<not> has_consent then
        Inr \<lparr> res_channel = ''whatsapp'',
              res_customer_id = customer_id,
              res_message_id = [],
              res_status = ''skipped'',
              res_timestamp = iso_now clk,
              res_details = [(''reason'', DStr ''No WhatsApp consent'')] \<rparr>
      else
        (case masked_phone phone of
           Inl e \<Rightarrow> Inl e
         | Inr shown \<Rightarrow>
             (case py_len message of
                Inl e \<Rightarrow> Inl e
              | Inr message_length \<Rightarrow>
                  Inr \<lparr> res_channel = ''whatsapp'',
                        res_customer_id = customer_id,
                        res_message_id = ''whatsapp_'' @ customer_id @ ''_'' @ unix_seconds clk,
                        res_status = ''sent'',
                        res_timestamp = iso_now clk,
                        res_details = [(''phone'', shown),
                                       (''message_length'', DInt (int message_length)),
                                       (''template_used'', DBool False),
                                       (''provider'', DStr ''WhatsApp Business API'')] \<rparr>)))"

definition set_web_personalization ::
  "clock_reading \<Rightarrow> string \<Rightarrow> (string \<times> string) list \<Rightarrow> py_error + ExecutionResult" where
  "set_web_personalization clk customer_id variations =
     Inr \<lparr> res_channel = ''web'',
           res_customer_id = customer_id,
           res_message_id = ''web_'' @ customer_id @ ''_'' @ unix_seconds clk,
           res_status = ''sent'',
           res_timestamp = iso_now clk,
           res_details = [(''variations_count'', DInt (int (length variations))),
                          (''variation_types'', DStrs (map fst variations)),
                          (''ttl_hours'', DInt 24)] \<rparr>"

definition send_push ::
  "clock_reading \<Rightarrow> string \<Rightarrow> string \<Rightarrow> string option \<Rightarrow> string \<Rightarrow> py_error + ExecutionResult" where
  "send_push clk customer_id title body platform =
     Inr \<lparr> res_channel = ''push'',
           res_customer_id = customer_id,
           res_message_id = ''push_'' @ customer_id @ ''_'' @ unix_seconds clk,
           res_status = ''sent'',
           res_timestamp = iso_now clk,
           res_details = [(''title'', DStr title),
                          (''platform'', DStr platform),
                          (''provider'', DStr ''Firebase Cloud Messaging'')] \<rparr>"

text \<open>The keys of \<open>campaign_data\<close> that \<open>execute_campaign\<close> reads.\<close>

record campaign_data =
  cp_channels :: "string list option"
  cp_subject :: "string option"
  cp_body :: "string option"
  cp_html :: "string option"
  cp_sms_message :: "string option"
  cp_whatsapp_message :: "string option"
  cp_web_variations :: "(string \<times> string) list option"
  cp_push_title :: "string option"
  cp_push_body :: "string option"

text \<open>\<open>d.get(k, d.get("body"))\<close>: the value under \<open>k\<close>, else the one under \<open>body\<close>, else \<open>None\<close>.\<close>

definition get_or_body :: "string option \<Rightarrow> campaign_data \<Rightarrow> string option" where
  "get_or_body v campaign = (case v of None \<Rightarrow> cp_body campaign | Some s \<Rightarrow> Some s)"

record ExecutionManager =
  execution_history :: "ExecutionResult list"

text \<open>
  The \<open>if\<close>/\<open>elif\<close> chain in the loop of \<open>execute_campaign\<close>: \<open>None\<close> is the final
  \<open>else: continue\<close>, otherwise the outcome of the sender that was called.
\<close>

definition channel_send ::
  "clock_reading \<Rightarrow> string \<Rightarrow> customer_data \<Rightarrow> campaign_data \<Rightarrow> string \<Rightarrow>
   (py_error + ExecutionResult) option" where
  "channel_send clk customer_id customer_data campaign channel =
     (if channel = ''email'' then
        Some (send_email clk customer_id (cd_email customer_data) (cp_subject campaign)
                (cp_body campaign) (get_or (cp_html campaign) []))
      else if channel = ''sms'' then
        Some (send_sms clk customer_id (cd_phone customer_data)
                (get_or_body (cp_sms_message campaign) campaign))
      else if channel = ''whatsapp'' then
        Some (send_whatsapp clk customer_id (cd_phone customer_data)
                (get_or_body (cp_whatsapp_message campaign) campaign)
                (get_or (cd_whatsapp_consent customer_data) False))
      else if channel = ''web'' then
        Some (set_web_personalization clk customer_id (get_or (cp_web_variations campaign) []))
      else if channel = ''push'' then
        Some (send_push clk customer_id (get_or (cp_push_title campaign) ''New offer'')
                (get_or_body (cp_push_body campaign) campaign) ''all'')
      else None)"

text \<open>
  The loop of \<open>execute_campaign\<close>. \<open>clock n\<close> is what the sender reads when \<open>n\<close> sends
  of this call are done. An exception leaves the loop; the results appended to
  \<open>execution_history\<close> before it stay there.
\<close>

fun campaign_loop ::
  "(nat \<Rightarrow> clock_reading) \<Rightarrow> string \<Rightarrow> customer_data \<Rightarrow> campaign_data \<Rightarrow> string list \<Rightarrow>
   ExecutionResult list \<Rightarrow> ExecutionManager \<Rightarrow>
   (py_error + ExecutionResult list) \<times> ExecutionManager" where
  "campaign_loop clock customer_id customer_data campaign [] results self = (Inr results, self)"
| "campaign_loop clock customer_id customer_data campaign (channel # rest) results self =
     (case channel_send (clock (length results)) customer_id customer_data campaign channel of
        None \<Rightarrow> campaign_loop clock customer_id customer_data campaign rest results self
      | Some (Inl e) \<Rightarrow> (Inl e, self)
      | Some (Inr result) \<Rightarrow>
          campaign_loop clock customer_id customer_data campaign rest (results @ [result])
            (self\<lparr>execution_history := execution_history self @ [result]\<rparr>))"

text \<open>\<open>ExecutionManager.execute_campaign\<close>.\<close>

definition execute_campaign ::
  "ExecutionManager \<Rightarrow> (nat \<Rightarrow> clock_reading) \<Rightarrow> string \<Rightarrow> customer_data \<Rightarrow> campaign_data \<Rightarrow>
   (py_error + ExecutionResult list) \<times> ExecutionManager" where
  "execute_campaign self clock customer_id customer_data campaign =
     campaign_loop clock customer_id customer_data campaign
       (get_or (cp_channels campaign) [''email'']) [] self"

text \<open>The channel names the chain of \<open>execute_campaign\<close> tests for.\<close>

definition recognized_channels :: "string list" where
  "recognized_channels = [''email'', ''sms'', ''whatsapp'', ''web'', ''push'']"

text \<open>
  Whether the sender of a channel finds the strings it takes the length of: the body for
  email; the phone number and the message for SMS, and for WhatsApp once consent is given.
\<close>

definition sender_ready :: "customer_data \<Rightarrow> campaign_data \<Rightarrow> string \<Rightarrow> bool" where
  "sender_ready customer_data campaign channel =
     (if channel = ''email'' then cp_body campaign \<noteq> None
      else if channel = ''sms'' then
        cd_phone customer_data \<noteq> None
        \<and> get_or_body (cp_sms_message campaign) campaign \<noteq> None
      else if channel = ''whatsapp'' then
        \<not> get_or (cd_whatsapp_consent customer_data) False
        \<or> (cd_phone customer_data \<noteq> None
            \<and> get_or_body (cp_whatsapp_message campaign) campaign \<noteq> None)
      else True)"

section \<open>Properties of the abandoned-cart policy\<close>

text \<open>
  C6. Within one VIP tier the discount percentage of \<open>_calculate_incentive\<close> never grows
  with the cart value: for \<open>v1 \<le> v2\<close> the incentive at \<open>v2\<close> is at most the incentive at \<open>v1\<close>.
\<close>

theorem calculate_incentive_antimono:
  "v1 \<le> v2 \<Longrightarrow> calculate_incentive v2 is_vip \<le> calculate_incentive v1 is_vip"
  by (simp add: calculate_incentive_def)

theorem calculate_incentive_antimono_witness:
  "(150::real) \<le> 250 \<and> calculate_incentive 250 False \<le> calculate_incentive 150 False
   \<and> calculate_incentive 250 False = 20 \<and> calculate_incentive 150 False = 25"
  using calculate_incentive_antimono [of 150 250 False]
  by (simp add: calculate_incentive_def)

end
